theory Spec2Isabelle
  imports Main
begin

section \<open>Regular expressions, as far as PnpmPackageManager.ts uses them\<close>

text \<open>
  JavaScript strings are modelled as \<open>string\<close>: one \<open>char\<close> per code unit, which covers
  the code units below 256 (the escape character 0x1B, the one-byte CSI 0x9B and BEL 0x07
  of the styling sequences are among them).

  A pattern is a syntax tree; \<open>rx_match r s\<close> lists, in the priority order of a
  backtracking matcher, what is left of \<open>s\<close> after each way \<open>r\<close> matches a prefix of it.
\<close>

datatype rx =
    Cls "char list"
  | Dot
  | Lit string
  | Seq rx rx
  | Alt rx rx
  | Opt rx
  | Star rx

fun strip_prefix :: "string \<Rightarrow> string \<Rightarrow> string option" where
  "strip_prefix [] s = Some s"
| "strip_prefix (c # cs) [] = None"
| "strip_prefix (c # cs) (d # ds) = (if c = d then strip_prefix cs ds else None)"

text \<open>
  A greedy \<open>*\<close>: another iteration is tried before the rest of the pattern, and an
  iteration that consumes nothing is rejected, so at most \<open>length s\<close> iterations happen.
  The same rejection applies to the one iteration of \<open>?\<close>.
\<close>

fun star_match :: "nat \<Rightarrow> (string \<Rightarrow> string list) \<Rightarrow> string \<Rightarrow> string list" where
  "star_match 0 f s = [s]"
| "star_match (Suc n) f s =
     concat (map (star_match n f) (filter (\<lambda>t. length t < length s) (f s))) @ [s]"

text \<open>\<open>.\<close> matches every code unit but a line terminator.\<close>

primrec rx_match :: "rx \<Rightarrow> string \<Rightarrow> string list" where
  "rx_match (Cls cs) s = (case s of [] \<Rightarrow> [] | c # t \<Rightarrow> if c \<in> set cs then [t] else [])"
| "rx_match Dot s =
     (case s of [] \<Rightarrow> [] | c # t \<Rightarrow> if c = CHR 0x0A \<or> c = CHR 0x0D then [] else [t])"
| "rx_match (Lit l) s = (case strip_prefix l s of None \<Rightarrow> [] | Some t \<Rightarrow> [t])"
| "rx_match (Seq a b) s = concat (map (rx_match b) (rx_match a s))"
| "rx_match (Alt a b) s = rx_match a s @ rx_match b s"
| "rx_match (Opt a) s = filter (\<lambda>t. length t < length s) (rx_match a s) @ [s]"
| "rx_match (Star a) s = star_match (length s) (rx_match a) s"

text \<open>
  The search of an unanchored pattern: the leftmost start position at which the pattern
  matches, and there the first match in priority order. The result is the number of code
  units left after the end of the match.
\<close>

fun search :: "rx \<Rightarrow> string \<Rightarrow> nat option" where
  "search r [] = (case rx_match r [] of [] \<Rightarrow> None | t # _ \<Rightarrow> Some (length t))"
| "search r (c # s) =
     (case rx_match r (c # s) of [] \<Rightarrow> search r s | t # _ \<Rightarrow> Some (length t))"

text \<open>
  \<open>RegExp.prototype.test\<close> of a pattern created with the flag \<open>'g'\<close>. The pattern object
  carries \<open>lastIndex\<close>: the search starts there, a match moves it to the end of the match,
  a failure resets it to 0. The result is the answer and the new \<open>lastIndex\<close>.
\<close>

definition regex_test :: "rx \<Rightarrow> nat \<Rightarrow> string \<Rightarrow> bool \<times> nat" where
  "regex_test r lastIndex s =
     (if length s < lastIndex then (False, 0)
      else case search r (drop lastIndex s) of
             None \<Rightarrow> (False, 0)
           | Some left \<Rightarrow> (True, length s - left))"

subsection \<open>The patterns\<close>

definition digit :: "char list" where
  "digit = ''0123456789''"

definition alnum :: "char list" where
  "alnum = ''abcdefghijklmnopqrstuvwxyzABCDEFGHIJKLMNOPQRSTUVWXYZ'' @ digit"

definition rx_plus :: "rx \<Rightarrow> rx" where
  "rx_plus r = Seq r (Star r)"

text \<open>\<open>r{1,4}\<close> and \<open>r{0,4}\<close>, greedy.\<close>

definition rep_1_4 :: "rx \<Rightarrow> rx" where
  "rep_1_4 r = Seq r (Opt (Seq r (Opt (Seq r (Opt r)))))"

definition rep_0_4 :: "rx \<Rightarrow> rx" where
  "rep_0_4 r = Opt (rep_1_4 r)"

text \<open>
  \<open>ansiRegex().source\<close> comes from the package ansi-regex, which is a dependency and not
  part of this repository. The filter takes it as a parameter \<open>ansi\<close>; the value below
  writes out the pattern of ansi-regex 5.0.1 and is used where a concrete line is run:
  \<^verbatim>\<open>[\u001B\u009B][[\]()#;?]*(?:(?:(?:(?:;[-a-zA-Z\d\/#&.:=?%@~_]+)*|[a-zA-Z\d]+(?:;[-a-zA-Z\d\/#&.:=?%@~_]*)*)?\u0007)|(?:(?:\d{1,4}(?:;\d{0,4})*)?[\dA-PR-TZcf-ntqry=><~]))\<close>
\<close>

definition ansiRegex :: rx where
  "ansiRegex =
     (let param = Cls (''-/#&.:=?%@~_'' @ alnum)
      in Seq (Cls [CHR 0x1B, CHR 0x9B])
        (Seq (Star (Cls ''[]()#;?''))
          (Alt
            (Seq (Opt (Alt (Star (Seq (Lit '';'') (rx_plus param)))
                           (Seq (rx_plus (Cls alnum)) (Star (Seq (Lit '';'') (Star param))))))
                 (Cls [CHR 0x07]))
            (Seq (Opt (Seq (rep_1_4 (Cls digit))
                           (Star (Seq (Lit '';'') (rep_0_4 (Cls digit))))))
                 (Cls (digit @ ''ABCDEFGHIJKLMNOPRSTZcfghijklmntqry=><~''))))))"

text \<open>
  \<^verbatim>\<open>const ansi = `(?:${ansiRegex().source})*`;\<close>
  \<^verbatim>\<open>new RegExp(`${ansi}WARN${ansi}.*Issues with peer dependencies found`, 'g')\<close>
\<close>

definition startPnpmPeerDependencyWarningPattern :: "rx \<Rightarrow> rx" where
  "startPnpmPeerDependencyWarningPattern ansi =
     Seq (Star ansi) (Seq (Lit ''WARN'') (Seq (Star ansi)
       (Seq (Star Dot) (Lit ''Issues with peer dependencies found''))))"

section \<open>PnpmStdoutTransform\<close>

text \<open>
  An instance holds its flag; \<open>pushed\<close> records the chunks it has handed to \<open>this.push\<close>,
  oldest first. The pattern object is a constant of the module, so its \<open>lastIndex\<close> is not
  part of the instance: \<open>_transform\<close> takes it and returns it beside the instance.
\<close>

record PnpmStdoutTransform =
  isPeerDepsWarning :: bool
  pushed :: "string list"

definition new_PnpmStdoutTransform :: PnpmStdoutTransform where
  "new_PnpmStdoutTransform = \<lparr>isPeerDepsWarning = False, pushed = []\<rparr>"

definition push :: "string \<Rightarrow> PnpmStdoutTransform \<Rightarrow> PnpmStdoutTransform" where
  "push line t = t\<lparr>pushed := pushed t @ [line]\<rparr>"

text \<open>
  \<open>&&\<close> evaluates its right operand only when the left one is true: the pattern is tested,
  and its \<open>lastIndex\<close> moves, only while the flag is clear. \<open>!line\<close> is true of the empty
  string alone.
\<close>

definition transform :: "rx \<Rightarrow> string \<Rightarrow> nat \<times> PnpmStdoutTransform \<Rightarrow> nat \<times> PnpmStdoutTransform" where
  "transform ansi line st =
     (let (lastIndex, t) = st;
          (found, lastIndex1) =
             (if \<not> isPeerDepsWarning t
              then regex_test (startPnpmPeerDependencyWarningPattern ansi) lastIndex line
              else (False, lastIndex));
          t1 = (if \<not> isPeerDepsWarning t \<and> found then t\<lparr>isPeerDepsWarning := True\<rparr>
                else if isPeerDepsWarning t \<and> line = [] then t\<lparr>isPeerDepsWarning := False\<rparr>
                else t)
      in if \<not> isPeerDepsWarning t1 then (lastIndex1, push line t1) else (lastIndex1, t1))"

text \<open>Writing a sequence of lines to the instance, one \<open>_transform\<close> call each.\<close>

fun write_lines :: "rx \<Rightarrow> string list \<Rightarrow> nat \<times> PnpmStdoutTransform \<Rightarrow> nat \<times> PnpmStdoutTransform" where
  "write_lines ansi [] st = st"
| "write_lines ansi (line # ls) st = write_lines ansi ls (transform ansi line st)"

text \<open>
  What the readable side of the stream delivers: the stream is in byte mode, where pushing a
  chunk of length zero adds no data, so the consumer receives the non-empty chunks.
\<close>

definition emitted :: "PnpmStdoutTransform \<Rightarrow> string list" where
  "emitted t = filter (\<lambda>chunk. chunk \<noteq> []) (pushed t)"

section \<open>The line splitter in front of the transform\<close>

text \<open>
  \<open>split(/\r?\n/, mapper)\<close> is the package split, a dependency. It keeps the unfinished
  last piece of the text seen so far in \<open>soFar\<close>, queues every finished piece through the
  mapper, and at the end of the stream queues what is left. \<open>js_split\<close> is
  \<open>String.prototype.split\<close> with the separator \<open>/\r?\n/\<close>.
\<close>

fun prepend :: "char \<Rightarrow> string list \<Rightarrow> string list" where
  "prepend c [] = [[c]]"
| "prepend c (p # ps) = (c # p) # ps"

fun js_split :: "string \<Rightarrow> string list" where
  "js_split [] = [[]]"
| "js_split (c # s) =
     (if c = CHR 0x0A then [] # js_split s
      else if c = CHR 0x0D then
        (case s of
           [] \<Rightarrow> [[c]]
         | d # s' \<Rightarrow> if d = CHR 0x0A then [] # js_split s' else prepend c (js_split s))
      else prepend c (js_split s))"

record split_stream =
  soFar :: string
  queued :: "string list"

definition split_next :: "(string \<Rightarrow> string) \<Rightarrow> string \<Rightarrow> split_stream \<Rightarrow> split_stream" where
  "split_next mapper buffer st =
     (let pieces = js_split (soFar st @ buffer)
      in \<lparr>soFar = last pieces, queued = queued st @ map mapper (butlast pieces)\<rparr>)"

definition split_end :: "(string \<Rightarrow> string) \<Rightarrow> split_stream \<Rightarrow> string list" where
  "split_end mapper st = (let st1 = split_next mapper [] st in queued st1 @ [mapper (soFar st1)])"

definition split :: "(string \<Rightarrow> string) \<Rightarrow> string list \<Rightarrow> string list" where
  "split mapper chunks =
     split_end mapper (foldl (\<lambda>st buffer. split_next mapper buffer st) \<lparr>soFar = [], queued = []\<rparr> chunks)"

section \<open>PnpmPackageManager\<close>

datatype stdio_kind = Inherit | Pipe

datatype stdio_option = StdioEach "stdio_kind list" | StdioAll stdio_kind

text \<open>
  \<open>SpawnOptions\<close>, with the keys this file sets. A key that an object literal leaves out is
  \<open>None\<close>. \<open>cwd\<close> is declared a string, and \<open>assert(this.options.cwd)\<close> allows for its
  absence.
\<close>

record SpawnOptions =
  env :: "(string \<rightharpoonup> string) option"
  cwd :: "string option"
  ignoreStdio :: "bool option"
  stdio :: "stdio_option option"

datatype error = AssertionError string | SpawnError string

text \<open>
  What a spawner returns: a promise with the child attached. \<open>child_stdout\<close> is
  \<open>promise.child.stdout\<close>: \<open>None\<close> for \<open>null\<close>, otherwise the chunks the stream delivers.
  \<open>settled\<close> is what the promise settles to; of a result only \<open>stdout\<close> is read here.
\<close>

record spawn_promise =
  child_stdout :: "string list option"
  settled :: "error + string"

type_synonym spawner_fn = "string \<Rightarrow> string list \<Rightarrow> SpawnOptions \<Rightarrow> spawn_promise"

text \<open>
  The effects outside the instance: the \<open>lastIndex\<close> of the module's pattern object, the
  calls made to the logger and to the spawner in their order, the attaching of a new
  PnpmStdoutTransform to a child's stdout, and the chunks written to \<open>process.stdout\<close>.
\<close>

datatype event =
    Log string
  | Spawn string "string list" SpawnOptions
  | PipeStdout

record world =
  lastIndex :: nat
  events :: "event list"
  process_stdout :: "string list"

text \<open>
  What the module reads from outside: \<open>process.env\<close>, \<open>DISABLE_ADS_ENV\<close> of
  ./NodePackageManagers, the default export of @expo/spawn-async, and the source of
  ansi-regex.
\<close>

record host =
  process_env :: "string \<rightharpoonup> string"
  DISABLE_ADS_ENV :: "string \<rightharpoonup> string"
  spawnAsync :: spawner_fn
  ansi :: rx

record PnpmPackageManagerOptions =
  opt_cwd :: "string option"
  opt_silent :: "bool option"
  opt_spawner :: "spawner_fn option"

record PnpmPackageManager =
  options :: SpawnOptions
  spawner :: spawner_fn

text \<open>
  The constructor. The logger (\<open>log || console.log\<close>) is a capability either way: a call to
  it is the event \<open>Log\<close>. \<open>{...process.env, ...DISABLE_ADS_ENV}\<close> is the map of the first
  overridden by the second.
\<close>

definition new_PnpmPackageManager :: "host \<Rightarrow> PnpmPackageManagerOptions \<Rightarrow> PnpmPackageManager" where
  "new_PnpmPackageManager im opts =
     \<lparr>options =
        (if opt_silent opts = Some True
         then \<lparr>env = Some (process_env im ++ DISABLE_ADS_ENV im), cwd = opt_cwd opts,
               ignoreStdio = Some True, stdio = None\<rparr>
         else \<lparr>env = Some (process_env im ++ DISABLE_ADS_ENV im), cwd = opt_cwd opts,
               ignoreStdio = None, stdio = Some (StdioEach [Inherit, Inherit, Pipe])\<rparr>),
      spawner = (case opt_spawner opts of None \<Rightarrow> spawnAsync im | Some f \<Rightarrow> f)\<rparr>"

text \<open>\<open>Array.prototype.join\<close>.\<close>

fun join :: "string \<Rightarrow> string list \<Rightarrow> string" where
  "join sep [] = []"
| "join sep [x] = x"
| "join sep (x # y # ys) = x @ sep @ join sep (y # ys)"

text \<open>
  The pipe of \<open>_runAsync\<close>: the child's stdout through the splitter, whose mapper puts the
  newline back on every piece, through a new PnpmStdoutTransform, to \<open>process.stdout\<close>.
\<close>

definition pipe_stdout :: "host \<Rightarrow> string list \<Rightarrow> world \<Rightarrow> world" where
  "pipe_stdout im chunks w =
     (let lines = split (\<lambda>line. line @ [CHR 0x0A]) chunks;
          (li, t) = write_lines (ansi im) lines (lastIndex w, new_PnpmStdoutTransform)
      in w\<lparr>lastIndex := li,
           events := events w @ [PipeStdout],
           process_stdout := process_stdout w @ emitted t\<rparr>)"

definition runAsync :: "host \<Rightarrow> PnpmPackageManager \<Rightarrow> string list \<Rightarrow> world \<Rightarrow> (error + string) \<times> world" where
  "runAsync im pm args w =
     (let w1 = (if ignoreStdio (options pm) \<noteq> Some True
                then w\<lparr>events := events w @ [Log (''> pnpm '' @ join '' '' args)]\<rparr>
                else w);
          opts = (options pm)\<lparr>ignoreStdio := Some False\<rparr>;
          promise = spawner pm ''pnpm'' args opts;
          w2 = w1\<lparr>events := events w1 @ [Spawn ''pnpm'' args opts]\<rparr>;
          w3 = (case child_stdout promise of
                  None \<Rightarrow> w2
                | Some chunks \<Rightarrow>
                    if ignoreStdio (options pm) \<noteq> Some True then pipe_stdout im chunks w2 else w2)
      in (settled promise, w3))"

text \<open>The operations that await \<open>_runAsync\<close> return nothing, or fail as it fails.\<close>

definition await_void :: "(error + string) \<times> world \<Rightarrow> (error + unit) \<times> world" where
  "await_void r = (case fst r of Inl e \<Rightarrow> (Inl e, snd r) | Inr _ \<Rightarrow> (Inr (), snd r))"

definition installAsync :: "host \<Rightarrow> PnpmPackageManager \<Rightarrow> world \<Rightarrow> (error + unit) \<times> world" where
  "installAsync im pm w = await_void (runAsync im pm [''install''] w)"

definition addWithParametersAsync ::
  "host \<Rightarrow> PnpmPackageManager \<Rightarrow> string list \<Rightarrow> string list \<Rightarrow> world \<Rightarrow> (error + unit) \<times> world" where
  "addWithParametersAsync im pm names parameters w =
     (if length names = 0 then installAsync im pm w
      else await_void (runAsync im pm ([''add''] @ parameters @ names) w))"

definition addAsync :: "host \<Rightarrow> PnpmPackageManager \<Rightarrow> string list \<Rightarrow> world \<Rightarrow> (error + unit) \<times> world" where
  "addAsync im pm names w = addWithParametersAsync im pm names [] w"

definition addDevAsync :: "host \<Rightarrow> PnpmPackageManager \<Rightarrow> string list \<Rightarrow> world \<Rightarrow> (error + unit) \<times> world" where
  "addDevAsync im pm names w =
     (if length names = 0 then installAsync im pm w
      else await_void (runAsync im pm ([''add'', ''--save-dev''] @ names) w))"

definition addGlobalAsync :: "host \<Rightarrow> PnpmPackageManager \<Rightarrow> string list \<Rightarrow> world \<Rightarrow> (error + unit) \<times> world" where
  "addGlobalAsync im pm names w =
     (if length names = 0 then installAsync im pm w
      else await_void (runAsync im pm ([''add'', ''--global''] @ names) w))"

definition removeAsync :: "host \<Rightarrow> PnpmPackageManager \<Rightarrow> string list \<Rightarrow> world \<Rightarrow> (error + unit) \<times> world" where
  "removeAsync im pm names w = await_void (runAsync im pm ([''remove''] @ names) w)"

text \<open>
  \<open>String.prototype.trim\<close>, on the white space and line terminators below 256.
\<close>

definition is_space :: "char \<Rightarrow> bool" where
  "is_space c = (c \<in> set [CHR 0x09, CHR 0x0A, CHR 0x0B, CHR 0x0C, CHR 0x0D, CHR 0x20, CHR 0xA0])"

definition trim :: "string \<Rightarrow> string" where
  "trim s = rev (dropWhile is_space (rev (dropWhile is_space s)))"

text \<open>
  \<open>versionAsync\<close> and \<open>getConfigAsync\<close> call the spawner themselves, with the options
  \<open>{ stdio: 'pipe' }\<close> and nothing else.
\<close>

definition versionAsync :: "PnpmPackageManager \<Rightarrow> world \<Rightarrow> (error + string) \<times> world" where
  "versionAsync pm w =
     (let opts = \<lparr>env = None, cwd = None, ignoreStdio = None, stdio = Some (StdioAll Pipe)\<rparr>;
          promise = spawner pm ''pnpm'' [''--version''] opts;
          w1 = w\<lparr>events := events w @ [Spawn ''pnpm'' [''--version''] opts]\<rparr>
      in (case settled promise of Inl e \<Rightarrow> (Inl e, w1) | Inr out \<Rightarrow> (Inr (trim out), w1)))"

definition getConfigAsync :: "PnpmPackageManager \<Rightarrow> string \<Rightarrow> world \<Rightarrow> (error + string) \<times> world" where
  "getConfigAsync pm key w =
     (let opts = \<lparr>env = None, cwd = None, ignoreStdio = None, stdio = Some (StdioAll Pipe)\<rparr>;
          promise = spawner pm ''pnpm'' [''config'', ''get'', key] opts;
          w1 = w\<lparr>events := events w @ [Spawn ''pnpm'' [''config'', ''get'', key] opts]\<rparr>
      in (case settled promise of Inl e \<Rightarrow> (Inl e, w1) | Inr out \<Rightarrow> (Inr (trim out), w1)))"

subsection \<open>The two operations on the file system\<close>

text \<open>
  \<open>fs.existsSync\<close>, \<open>rimraf.sync\<close> and \<open>path.join\<close> belong to the platform: they are
  parameters, over any type \<open>'fs\<close> of file system states. \<open>rimraf.sync\<close> gives the new state
  and the error it throws, if any. Every call made to the file system is recorded.
\<close>

record 'fs fs_api =
  existsSync :: "string \<Rightarrow> 'fs \<Rightarrow> bool"
  rimraf_sync :: "string \<Rightarrow> 'fs \<Rightarrow> 'fs \<times> error option"
  path_join :: "string \<Rightarrow> string \<Rightarrow> string"

datatype fs_call = ExistsSync string | RimrafSync string

record 'fs disk =
  files :: 'fs
  fs_calls :: "fs_call list"

text \<open>
  \<open>assert(value, message)\<close> throws unless the value is truthy: \<open>undefined\<close> is not, and of
  the strings the empty one is not.
\<close>

definition removeLockfileAsync ::
  "'fs fs_api \<Rightarrow> PnpmPackageManager \<Rightarrow> 'fs disk \<Rightarrow> (error + unit) \<times> 'fs disk" where
  "removeLockfileAsync api pm d =
     (case cwd (options pm) of
        None \<Rightarrow> (Inl (AssertionError ''cwd required for PnpmPackageManager.removeLockfileAsync''), d)
      | Some dir \<Rightarrow>
          if dir = [] then (Inl (AssertionError ''cwd required for PnpmPackageManager.removeLockfileAsync''), d)
          else
            let lockfilePath = path_join api dir ''pnpm-lock.yaml'';
                d1 = d\<lparr>fs_calls := fs_calls d @ [ExistsSync lockfilePath]\<rparr>
            in if existsSync api lockfilePath (files d)
               then
                 (let (fs', err) = rimraf_sync api lockfilePath (files d);
                      d2 = d1\<lparr>files := fs', fs_calls := fs_calls d1 @ [RimrafSync lockfilePath]\<rparr>
                  in case err of None \<Rightarrow> (Inr (), d2) | Some e \<Rightarrow> (Inl e, d2))
               else (Inr (), d1))"

definition cleanAsync ::
  "'fs fs_api \<Rightarrow> PnpmPackageManager \<Rightarrow> 'fs disk \<Rightarrow> (error + unit) \<times> 'fs disk" where
  "cleanAsync api pm d =
     (case cwd (options pm) of
        None \<Rightarrow> (Inl (AssertionError ''cwd required for PnpmPackageManager.cleanAsync''), d)
      | Some dir \<Rightarrow>
          if dir = [] then (Inl (AssertionError ''cwd required for PnpmPackageManager.cleanAsync''), d)
          else
            let nodeModulesPath = path_join api dir ''node_modules'';
                d1 = d\<lparr>fs_calls := fs_calls d @ [ExistsSync nodeModulesPath]\<rparr>
            in if existsSync api nodeModulesPath (files d)
               then
                 (let (fs', err) = rimraf_sync api nodeModulesPath (files d);
                      d2 = d1\<lparr>files := fs', fs_calls := fs_calls d1 @ [RimrafSync nodeModulesPath]\<rparr>
                  in case err of None \<Rightarrow> (Inr (), d2) | Some e \<Rightarrow> (Inl e, d2))
               else (Inr (), d1))"

section \<open>Reading the effects\<close>

text \<open>The calls to the spawner, to the logger, and the pipes attached, in their order.\<close>

fun spawned :: "event list \<Rightarrow> (string \<times> string list) list" where
  "spawned [] = []"
| "spawned (Spawn cmd args opts # es) = (cmd, args) # spawned es"
| "spawned (e # es) = spawned es"

fun spawn_options :: "event list \<Rightarrow> SpawnOptions list" where
  "spawn_options [] = []"
| "spawn_options (Spawn cmd args opts # es) = opts # spawn_options es"
| "spawn_options (e # es) = spawn_options es"

fun logged :: "event list \<Rightarrow> string list" where
  "logged [] = []"
| "logged (Log message # es) = message # logged es"
| "logged (e # es) = logged es"

fun piped :: "event list \<Rightarrow> nat" where
  "piped [] = 0"
| "piped (PipeStdout # es) = Suc (piped es)"
| "piped (e # es) = piped es"

text \<open>
  The environment of the child: \<open>child_process.spawn\<close> takes it from the key \<open>env\<close> of the
  options, and from \<open>process.env\<close> when the options have no such key.
\<close>

definition child_env :: "host \<Rightarrow> SpawnOptions \<Rightarrow> (string \<rightharpoonup> string)" where
  "child_env im opts = (case env opts of None \<Rightarrow> process_env im | Some e \<Rightarrow> e)"

text \<open>The public operations that call the spawner, as one type, and the world each leaves.\<close>

datatype operation =
    Install
  | AddWithParameters "string list" "string list"
  | Add "string list"
  | AddDev "string list"
  | AddGlobal "string list"
  | Remove "string list"
  | Version
  | GetConfig string

fun perform :: "host \<Rightarrow> PnpmPackageManager \<Rightarrow> operation \<Rightarrow> world \<Rightarrow> world" where
  "perform im pm Install w = snd (installAsync im pm w)"
| "perform im pm (AddWithParameters names parameters) w = snd (addWithParametersAsync im pm names parameters w)"
| "perform im pm (Add names) w = snd (addAsync im pm names w)"
| "perform im pm (AddDev names) w = snd (addDevAsync im pm names w)"
| "perform im pm (AddGlobal names) w = snd (addGlobalAsync im pm names w)"
| "perform im pm (Remove names) w = snd (removeAsync im pm names w)"
| "perform im pm Version w = snd (versionAsync pm w)"
| "perform im pm (GetConfig key) w = snd (getConfigAsync pm key w)"

text \<open>The operations that go through \<open>_runAsync\<close>.\<close>

fun uses_runAsync :: "operation \<Rightarrow> bool" where
  "uses_runAsync Version = False"
| "uses_runAsync (GetConfig key) = False"
| "uses_runAsync op = True"

section \<open>Concrete inputs\<close>

definition warning_header :: string where
  "warning_header = ''WARN  Issues with peer dependencies found''"

text \<open>The header as a terminal shows it in colour: black on yellow around WARN.\<close>

definition styled_header :: string where
  "styled_header =
     CHR 0x1B # ''[43m'' @ CHR 0x1B # ''[30m WARN '' @ CHR 0x1B # ''[39m'' @ CHR 0x1B # ''[49m''
       @ '' Issues with peer dependencies found''"

text \<open>
  A spawner that attaches streams as \<open>child_process.spawn\<close> does: the child has a stdout
  stream only where \<open>stdio\<close> asks for a pipe on the standard output, which is also the
  default; under \<open>'inherit'\<close> the output goes to the parent's descriptor and
  \<open>child.stdout\<close> is \<open>null\<close>. The child prints the chunks \<open>out\<close> and exits with success.
\<close>

definition stdout_is_pipe :: "SpawnOptions \<Rightarrow> bool" where
  "stdout_is_pipe opts =
     (case stdio opts of
        None \<Rightarrow> True
      | Some (StdioAll k) \<Rightarrow> k = Pipe
      | Some (StdioEach ks) \<Rightarrow> (case ks of i # k # _ \<Rightarrow> k = Pipe | _ \<Rightarrow> True))"

definition child_printing :: "string list \<Rightarrow> spawner_fn" where
  "child_printing out cmd args opts =
     (if stdout_is_pipe opts then \<lparr>child_stdout = Some out, settled = Inr (concat out)\<rparr>
      else \<lparr>child_stdout = None, settled = Inr []\<rparr>)"

text \<open>A spawner of the kind a test injects: the child always has a stdout stream.\<close>

definition child_streaming :: "string list \<Rightarrow> spawner_fn" where
  "child_streaming out cmd args opts = \<lparr>child_stdout = Some out, settled = Inr (concat out)\<rparr>"

definition example_host :: "string list \<Rightarrow> host" where
  "example_host out =
     \<lparr>process_env = [''PATH'' \<mapsto> ''/usr/bin'', ''ADBLOCK'' \<mapsto> ''0''],
      DISABLE_ADS_ENV = [''DISABLE_OPENCOLLECTIVE'' \<mapsto> ''1'', ''ADBLOCK'' \<mapsto> ''1''],
      spawnAsync = child_printing out,
      ansi = ansiRegex\<rparr>"

definition empty_world :: world where
  "empty_world = \<lparr>lastIndex = 0, events = [], process_stdout = []\<rparr>"

text \<open>
  Managers made by the constructor: with the default spawner and not silent, the same with
  \<open>silent: true\<close>, and one whose injected spawner always gives the child a stdout stream.
\<close>

definition interactive_manager :: "string list \<Rightarrow> PnpmPackageManager" where
  "interactive_manager out =
     new_PnpmPackageManager (example_host out)
       \<lparr>opt_cwd = Some ''/app'', opt_silent = None, opt_spawner = None\<rparr>"

definition silent_manager :: "string list \<Rightarrow> PnpmPackageManager" where
  "silent_manager out =
     new_PnpmPackageManager (example_host out)
       \<lparr>opt_cwd = Some ''/app'', opt_silent = Some True, opt_spawner = None\<rparr>"

definition streaming_manager :: "string list \<Rightarrow> PnpmPackageManager" where
  "streaming_manager out =
     new_PnpmPackageManager (example_host out)
       \<lparr>opt_cwd = Some ''/app'', opt_silent = None, opt_spawner = Some (child_streaming out)\<rparr>"

text \<open>Managers that differ in \<open>cwd\<close> alone.\<close>

definition manager_at :: "string option \<Rightarrow> PnpmPackageManager" where
  "manager_at dir =
     new_PnpmPackageManager (example_host [])
       \<lparr>opt_cwd = dir, opt_silent = None, opt_spawner = None\<rparr>"

definition example_disk :: "string list disk" where
  "example_disk = \<lparr>files = [''/app/package.json''], fs_calls = []\<rparr>"

text \<open>
  What pnpm prints in the example: a line, the warning with one line of detail, an empty
  line, and a last line; in one chunk.
\<close>

definition pnpm_output :: "string list" where
  "pnpm_output =
     [''Lockfile is up to date'' @ [CHR 0x0A] @ warning_header @ [CHR 0x0A] @ ''detail'' @ [CHR 0x0A]
        @ [CHR 0x0A] @ ''Done in 1s'' @ [CHR 0x0A]]"

text \<open>A file system as the list of the paths that exist, for running the two removals.\<close>

definition list_fs :: "string list fs_api" where
  "list_fs =
     \<lparr>existsSync = (\<lambda>p fs. p \<in> set fs),
      rimraf_sync = (\<lambda>p fs. (filter (\<lambda>q. q \<noteq> p \<and> take (Suc (length p)) q \<noteq> p @ ''/'') fs, None)),
      path_join = (\<lambda>a b. a @ ''/'' @ b)\<rparr>"

section \<open>The pattern test and one step of the transform\<close>

lemma search_drop: "search r s = None \<Longrightarrow> search r (drop k s) = None"
proof (induction s arbitrary: k)
  case Nil
  then show ?case by simp
next
  case (Cons c s)
  then have tl: "search r s = None" by (simp split: list.splits)
  show ?case
  proof (cases k)
    case 0
    with Cons.prems show ?thesis by simp
  next
    case (Suc j)
    with Cons.IH [OF tl] show ?thesis by simp
  qed
qed

lemma regex_test_no_match:
  "\<not> fst (regex_test r 0 s) \<Longrightarrow> regex_test r k s = (False, 0)"
proof -
  assume "\<not> fst (regex_test r 0 s)"
  then have "search r s = None"
    by (simp add: regex_test_def split: option.splits)
  then have "search r (drop k s) = None" by (rule search_drop)
  then show ?thesis by (simp add: regex_test_def)
qed

lemma pattern_not_empty:
  "regex_test (startPnpmPeerDependencyWarningPattern a) k [] = (False, 0)"
  by (simp add: regex_test_def startPnpmPeerDependencyWarningPattern_def)

lemma regex_test_found_nonempty:
  "fst (regex_test (startPnpmPeerDependencyWarningPattern a) k s) \<Longrightarrow> s \<noteq> []"
  using pattern_not_empty [of a k] by auto

lemma transform_suppressing:
  "isPeerDepsWarning t \<Longrightarrow> line \<noteq> [] \<Longrightarrow> transform a line (k, t) = (k, t)"
  by (simp add: transform_def)

lemma transform_blank:
  "isPeerDepsWarning t \<Longrightarrow>
   transform a [] (k, t) = (k, \<lparr>isPeerDepsWarning = False, pushed = pushed t @ [[]]\<rparr>)"
  by (simp add: transform_def push_def)

lemma transform_header:
  "\<not> isPeerDepsWarning t \<Longrightarrow> regex_test (startPnpmPeerDependencyWarningPattern a) k line = (True, e) \<Longrightarrow>
   transform a line (k, t) = (e, \<lparr>isPeerDepsWarning = True, pushed = pushed t\<rparr>)"
  by (simp add: transform_def)

lemma transform_pass:
  "\<not> isPeerDepsWarning t \<Longrightarrow> regex_test (startPnpmPeerDependencyWarningPattern a) k line = (False, e) \<Longrightarrow>
   transform a line (k, t) = (e, \<lparr>isPeerDepsWarning = False, pushed = pushed t @ [line]\<rparr>)"
  by (simp add: transform_def push_def)

lemma write_lines_append:
  "write_lines a (xs @ ys) st = write_lines a ys (write_lines a xs st)"
  by (induction xs arbitrary: st) simp_all

lemma write_lines_suppressing:
  "isPeerDepsWarning t \<Longrightarrow> \<forall>n\<in>set ns. n \<noteq> [] \<Longrightarrow> write_lines a ns (k, t) = (k, t)"
  by (induction ns) (simp_all add: transform_suppressing)

lemma write_lines_pass:
  "\<not> isPeerDepsWarning t \<Longrightarrow> rest \<noteq> [] \<Longrightarrow>
   \<forall>r\<in>set rest. \<not> fst (regex_test (startPnpmPeerDependencyWarningPattern a) 0 r) \<Longrightarrow>
   write_lines a rest (k, t) = (0, \<lparr>isPeerDepsWarning = False, pushed = pushed t @ rest\<rparr>)"
proof (induction rest arbitrary: k t)
  case Nil
  then show ?case by simp
next
  case (Cons r rest)
  have no: "regex_test (startPnpmPeerDependencyWarningPattern a) k r = (False, 0)"
    using Cons.prems(3) by (simp add: regex_test_no_match)
  have step: "transform a r (k, t) = (0, \<lparr>isPeerDepsWarning = False, pushed = pushed t @ [r]\<rparr>)"
    using transform_pass [OF Cons.prems(1) no] .
  show ?case
  proof (cases rest)
    case Nil
    with step show ?thesis by simp
  next
    case (Cons r' rest')
    then have ne: "rest \<noteq> []" by simp
    have "write_lines a rest (0, \<lparr>isPeerDepsWarning = False, pushed = pushed t @ [r]\<rparr>)
          = (0, \<lparr>isPeerDepsWarning = False, pushed = (pushed t @ [r]) @ rest\<rparr>)"
      using Cons.IH [of "\<lparr>isPeerDepsWarning = False, pushed = pushed t @ [r]\<rparr>" 0] ne Cons.prems(3)
      by simp
    with step show ?thesis by simp
  qed
qed

section \<open>The claims about PnpmStdoutTransform\<close>

text \<open>
  C1, as stated, at a concrete input. The header is followed by the line \<open>a\<close>, an empty
  line, and then by the lines \<open>x\<close>, the header again, and \<open>y\<close>. The header among the
  further lines opens a second block: of the three lines after the empty line only \<open>x\<close>
  is emitted.
\<close>

theorem C1_counterexample:
  "fst (regex_test (startPnpmPeerDependencyWarningPattern ansiRegex) 0 warning_header)
   \<and> emitted (snd (write_lines ansiRegex
         [warning_header, ''a'', [], ''x'', warning_header, ''y'']
         (0, new_PnpmStdoutTransform))) = [''x'']
   \<and> emitted (snd (write_lines ansiRegex
         [warning_header, ''a'', [], ''x'', warning_header, ''y'']
         (0, new_PnpmStdoutTransform))) \<noteq> [''x'', warning_header, ''y'']"
  by code_simp

text \<open>
  C1, amended. Take a header line on which the test of the pattern succeeds (from the
  position \<open>k\<close> the pattern object is at; on first use that is 0), then \<open>ns\<close>, lines that are
  all non-empty, then one empty line, then \<open>rest\<close>, lines none of which matches the pattern.
  A new PnpmStdoutTransform pushes nothing for the header and for \<open>ns\<close> and has its flag
  set after them; the empty line clears the flag and reaches \<open>push\<close> as a chunk of length
  zero, which adds no data; every line of \<open>rest\<close> is pushed unchanged and in order. So what
  is emitted is \<open>rest\<close>, its empty lines being chunks without data.
\<close>

theorem C1_block_suppressed:
  assumes header: "fst (regex_test (startPnpmPeerDependencyWarningPattern a) k h)"
    and block: "\<forall>n\<in>set ns. n \<noteq> []"
    and rest: "\<forall>r\<in>set rest. \<not> fst (regex_test (startPnpmPeerDependencyWarningPattern a) 0 r)"
  shows "pushed (snd (write_lines a (h # ns) (k, new_PnpmStdoutTransform))) = []
    \<and> isPeerDepsWarning (snd (write_lines a (h # ns) (k, new_PnpmStdoutTransform)))
    \<and> snd (write_lines a (h # ns @ [[]]) (k, new_PnpmStdoutTransform))
        = \<lparr>isPeerDepsWarning = False, pushed = [[]]\<rparr>
    \<and> snd (write_lines a (h # ns @ [] # rest) (k, new_PnpmStdoutTransform))
        = \<lparr>isPeerDepsWarning = False, pushed = [] # rest\<rparr>
    \<and> emitted (snd (write_lines a (h # ns @ [] # rest) (k, new_PnpmStdoutTransform)))
        = filter (\<lambda>line. line \<noteq> []) rest"
proof -
  let ?on = "\<lparr>isPeerDepsWarning = True, pushed = []\<rparr>"
  let ?off = "\<lparr>isPeerDepsWarning = False, pushed = [[]]\<rparr>"
  obtain e where e: "regex_test (startPnpmPeerDependencyWarningPattern a) k h = (True, e)"
    using header by (cases "regex_test (startPnpmPeerDependencyWarningPattern a) k h") auto
  have s1: "transform a h (k, new_PnpmStdoutTransform) = (e, ?on)"
    using transform_header [of new_PnpmStdoutTransform a k h e] e
    by (simp add: new_PnpmStdoutTransform_def)
  have s2: "write_lines a (h # ns) (k, new_PnpmStdoutTransform) = (e, ?on)"
    using s1 write_lines_suppressing [of ?on ns a e] block by simp
  have s3: "write_lines a (h # ns @ [[]]) (k, new_PnpmStdoutTransform) = (e, ?off)"
    using s2 write_lines_append [of a "h # ns" "[[]]" "(k, new_PnpmStdoutTransform)"]
      transform_blank [of ?on a e] by simp
  have s4: "snd (write_lines a (h # ns @ [] # rest) (k, new_PnpmStdoutTransform))
        = \<lparr>isPeerDepsWarning = False, pushed = [] # rest\<rparr>"
  proof (cases rest)
    case Nil
    with s3 show ?thesis by simp
  next
    case (Cons r rs)
    have "write_lines a rest (e, ?off) = (0, \<lparr>isPeerDepsWarning = False, pushed = pushed ?off @ rest\<rparr>)"
      using write_lines_pass [of ?off rest a e] rest Cons by simp
    moreover have "write_lines a (h # ns @ [] # rest) (k, new_PnpmStdoutTransform)
        = write_lines a rest (write_lines a (h # ns @ [[]]) (k, new_PnpmStdoutTransform))"
      using write_lines_append [of a "h # ns @ [[]]" rest "(k, new_PnpmStdoutTransform)"] by simp
    ultimately show ?thesis using s3 by simp
  qed
  show ?thesis using s2 s3 s4 by (simp add: emitted_def)
qed

theorem C1_block_suppressed_witness:
  "fst (regex_test (startPnpmPeerDependencyWarningPattern ansiRegex) 0 styled_header)
   \<and> snd (write_lines ansiRegex [styled_header, ''a'', ''b'', [], ''next'', ''more'']
        (0, new_PnpmStdoutTransform))
       = \<lparr>isPeerDepsWarning = False, pushed = [[], ''next'', ''more'']\<rparr>
   \<and> emitted (snd (write_lines ansiRegex [styled_header, ''a'', ''b'', [], ''next'', ''more'']
        (0, new_PnpmStdoutTransform))) = [''next'', ''more'']"
proof -
  have h1: "fst (regex_test (startPnpmPeerDependencyWarningPattern ansiRegex) 0 styled_header)"
    by code_simp
  have h2: "\<forall>n\<in>set [''a'', ''b'']. n \<noteq> []" by simp
  have h3: "\<forall>r\<in>set [''next'', ''more''].
      \<not> fst (regex_test (startPnpmPeerDependencyWarningPattern ansiRegex) 0 r)"
    by code_simp
  from C1_block_suppressed [OF h1 h2 h3] h1 show ?thesis by (simp add: emitted_def)
qed

text \<open>
  C3 at a failing input. The pattern object is created once for the module, with the flag
  \<open>'g'\<close>, so \<open>test\<close> moves its \<open>lastIndex\<close>, and every instance tests with the same object.
  A new instance fed the header alone suppresses it and leaves \<open>lastIndex\<close> at 41; a second
  new instance fed the same line then tests from 41, finds nothing and forwards the header.
  Within one stream the same happens to a header that follows the empty line which closed
  a block: the flag is clear and the line is the header, as at the start of the stream, yet
  it is forwarded.
\<close>

theorem C3_shared_lastIndex:
  "write_lines ansiRegex [warning_header] (0, new_PnpmStdoutTransform)
     = (41, \<lparr>isPeerDepsWarning = True, pushed = []\<rparr>)
   \<and> write_lines ansiRegex [warning_header] (41, new_PnpmStdoutTransform)
     = (0, \<lparr>isPeerDepsWarning = False, pushed = [warning_header]\<rparr>)
   \<and> write_lines ansiRegex [warning_header, [], warning_header] (0, new_PnpmStdoutTransform)
     = (0, \<lparr>isPeerDepsWarning = False, pushed = [[], warning_header]\<rparr>)"
  by code_simp

text \<open>
  C6: a header line arriving while the transform suppresses changes nothing. After a first
  header \<open>h1\<close> was recognised, the flag is set; a second header \<open>h2\<close> leaves the instance and
  the pattern's \<open>lastIndex\<close> as they were, so the stream with both headers ends in the same
  state and with the same output as the stream with one; and whatever line comes next, the
  flag stays set exactly when that line is not empty.
\<close>

theorem C6_header_while_suppressing:
  assumes passing: "\<not> isPeerDepsWarning t"
    and first: "fst (regex_test (startPnpmPeerDependencyWarningPattern a) k h1)"
    and second: "fst (regex_test (startPnpmPeerDependencyWarningPattern a) 0 h2)"
  shows "isPeerDepsWarning (snd (transform a h1 (k, t)))
    \<and> transform a h2 (transform a h1 (k, t)) = transform a h1 (k, t)
    \<and> write_lines a (h1 # h2 # rest) (k, t) = write_lines a (h1 # rest) (k, t)
    \<and> isPeerDepsWarning (snd (transform a line (transform a h1 (k, t)))) = (line \<noteq> [])"
proof -
  obtain e where e: "regex_test (startPnpmPeerDependencyWarningPattern a) k h1 = (True, e)"
    using first by (cases "regex_test (startPnpmPeerDependencyWarningPattern a) k h1") auto
  let ?on = "\<lparr>isPeerDepsWarning = True, pushed = pushed t\<rparr>"
  have s1: "transform a h1 (k, t) = (e, ?on)"
    using transform_header [OF passing e] .
  have ne: "h2 \<noteq> []" using second by (rule regex_test_found_nonempty)
  have s2: "transform a h2 (e, ?on) = (e, ?on)"
    using transform_suppressing [of ?on h2 a e] ne by simp
  have s3: "isPeerDepsWarning (snd (transform a line (e, ?on))) = (line \<noteq> [])"
  proof (cases "line = []")
    case True
    then show ?thesis using transform_blank [of ?on a e] by simp
  next
    case False
    then show ?thesis using transform_suppressing [of ?on line a e] by simp
  qed
  show ?thesis using s1 s2 s3 by simp
qed

theorem C6_header_while_suppressing_witness:
  "\<not> isPeerDepsWarning new_PnpmStdoutTransform
   \<and> fst (regex_test (startPnpmPeerDependencyWarningPattern ansiRegex) 0 warning_header)
   \<and> fst (regex_test (startPnpmPeerDependencyWarningPattern ansiRegex) 0 styled_header)
   \<and> isPeerDepsWarning (snd (transform ansiRegex warning_header (0, new_PnpmStdoutTransform)))
   \<and> transform ansiRegex styled_header (transform ansiRegex warning_header (0, new_PnpmStdoutTransform))
       = transform ansiRegex warning_header (0, new_PnpmStdoutTransform)
   \<and> write_lines ansiRegex [warning_header, styled_header, ''a'', [], ''next''] (0, new_PnpmStdoutTransform)
       = write_lines ansiRegex [warning_header, ''a'', [], ''next''] (0, new_PnpmStdoutTransform)
   \<and> isPeerDepsWarning (snd (transform ansiRegex [] (transform ansiRegex warning_header (0, new_PnpmStdoutTransform))))
       = False"
proof -
  have h1: "\<not> isPeerDepsWarning new_PnpmStdoutTransform"
    by (simp add: new_PnpmStdoutTransform_def)
  have h2: "fst (regex_test (startPnpmPeerDependencyWarningPattern ansiRegex) 0 warning_header)"
    by code_simp
  have h3: "fst (regex_test (startPnpmPeerDependencyWarningPattern ansiRegex) 0 styled_header)"
    by code_simp
  from C6_header_while_suppressing [OF h1 h2 h3, of "[''a'', [], ''next'']" "[]"] h1 h2 h3
  show ?thesis by blast
qed

section \<open>The effects of the operations\<close>

lemma spawned_append: "spawned (xs @ ys) = spawned xs @ spawned ys"
  by (induction xs rule: spawned.induct) simp_all

lemma spawn_options_append: "spawn_options (xs @ ys) = spawn_options xs @ spawn_options ys"
  by (induction xs rule: spawn_options.induct) simp_all

lemma logged_append: "logged (xs @ ys) = logged xs @ logged ys"
  by (induction xs rule: logged.induct) simp_all

lemma piped_append: "piped (xs @ ys) = piped xs + piped ys"
  by (induction xs rule: piped.induct) simp_all

lemma events_pipe_stdout: "events (pipe_stdout im chunks w) = events w @ [PipeStdout]"
  by (simp add: pipe_stdout_def Let_def split: prod.splits)

lemma events_runAsync:
  "events (snd (runAsync im pm args w)) =
     events w
       @ (if ignoreStdio (options pm) = Some True then [] else [Log (''> pnpm '' @ join '' '' args)])
       @ [Spawn ''pnpm'' args ((options pm)\<lparr>ignoreStdio := Some False\<rparr>)]
       @ (if ignoreStdio (options pm) = Some True then []
          else case child_stdout (spawner pm ''pnpm'' args ((options pm)\<lparr>ignoreStdio := Some False\<rparr>)) of
                 None \<Rightarrow> [] | Some chunks \<Rightarrow> [PipeStdout])"
  by (simp add: runAsync_def Let_def events_pipe_stdout split: option.splits)

lemma snd_await_void: "snd (await_void r) = snd r"
  by (simp add: await_void_def split: sum.splits)

lemma events_versionAsync:
  "events (snd (versionAsync pm w)) =
     events w @ [Spawn ''pnpm'' [''--version'']
                   \<lparr>env = None, cwd = None, ignoreStdio = None, stdio = Some (StdioAll Pipe)\<rparr>]"
  by (simp add: versionAsync_def Let_def split: sum.splits)

lemma events_getConfigAsync:
  "events (snd (getConfigAsync pm key w)) =
     events w @ [Spawn ''pnpm'' [''config'', ''get'', key]
                   \<lparr>env = None, cwd = None, ignoreStdio = None, stdio = Some (StdioAll Pipe)\<rparr>]"
  by (simp add: getConfigAsync_def Let_def split: sum.splits)

lemma spawned_runAsync:
  "spawned (events (snd (runAsync im pm args w))) = spawned (events w) @ [(''pnpm'', args)]"
  by (simp add: events_runAsync spawned_append split: option.splits)

section \<open>The claims about the argument vectors\<close>

text \<open>
  C4: with an empty list of names, \<open>add\<close>, \<open>addWithParameters\<close> (whatever the parameters),
  \<open>addDev\<close> and \<open>addGlobal\<close> are each the call of \<open>install\<close>: the same result and the same
  effects, and what \<open>install\<close> spawns is pnpm with the argument vector \<open>["install"]\<close>.
\<close>

theorem C4_empty_names_install:
  "addAsync im pm [] w = installAsync im pm w
   \<and> addWithParametersAsync im pm [] parameters w = installAsync im pm w
   \<and> addDevAsync im pm [] w = installAsync im pm w
   \<and> addGlobalAsync im pm [] w = installAsync im pm w
   \<and> spawned (events (snd (installAsync im pm w))) = spawned (events w) @ [(''pnpm'', [''install''])]"
  by (simp add: addAsync_def addWithParametersAsync_def addDevAsync_def addGlobalAsync_def
      installAsync_def snd_await_void spawned_runAsync)

text \<open>
  C8: with a list of names that is not empty, \<open>add\<close> spawns pnpm with \<open>add\<close> and the names,
  \<open>addDev\<close> with \<open>add --save-dev\<close> and the names, \<open>addGlobal\<close> with \<open>add --global\<close> and
  the names, \<open>addWithParameters\<close> with \<open>add\<close>, the parameters and the names, all in the
  order given.
\<close>

theorem C8_argument_vectors:
  assumes "names \<noteq> []"
  shows "spawned (events (snd (addAsync im pm names w)))
           = spawned (events w) @ [(''pnpm'', ''add'' # names)]
    \<and> spawned (events (snd (addDevAsync im pm names w)))
           = spawned (events w) @ [(''pnpm'', ''add'' # ''--save-dev'' # names)]
    \<and> spawned (events (snd (addGlobalAsync im pm names w)))
           = spawned (events w) @ [(''pnpm'', ''add'' # ''--global'' # names)]
    \<and> spawned (events (snd (addWithParametersAsync im pm names parameters w)))
           = spawned (events w) @ [(''pnpm'', ''add'' # parameters @ names)]"
  using assms
  by (simp add: addAsync_def addWithParametersAsync_def addDevAsync_def addGlobalAsync_def
      snd_await_void spawned_runAsync)

theorem C8_argument_vectors_witness:
  "[''foo'', ''bar''] \<noteq> []
   \<and> spawned (events (snd (addAsync (example_host []) (interactive_manager []) [''foo'', ''bar''] empty_world)))
        = [(''pnpm'', [''add'', ''foo'', ''bar''])]
   \<and> spawned (events (snd (addDevAsync (example_host []) (interactive_manager []) [''foo'', ''bar''] empty_world)))
        = [(''pnpm'', [''add'', ''--save-dev'', ''foo'', ''bar''])]
   \<and> spawned (events (snd (addGlobalAsync (example_host []) (interactive_manager []) [''foo'', ''bar''] empty_world)))
        = [(''pnpm'', [''add'', ''--global'', ''foo'', ''bar''])]
   \<and> spawned (events (snd (addWithParametersAsync (example_host []) (interactive_manager [])
          [''foo'', ''bar''] [''--save-exact'', ''-w''] empty_world)))
        = [(''pnpm'', [''add'', ''--save-exact'', ''-w'', ''foo'', ''bar''])]"
proof -
  have h: "[''foo'', ''bar''] \<noteq> []" by simp
  from C8_argument_vectors [OF h, of "example_host []" "interactive_manager []" empty_world
      "[''--save-exact'', ''-w'']"]
  show ?thesis by (simp add: empty_world_def)
qed

text \<open>
  C10: \<open>remove\<close> with an empty list of names does not turn into \<open>install\<close>: it runs
  \<open>_runAsync\<close> with the argument vector \<open>["remove"]\<close> alone, so pnpm is spawned with it.
\<close>

theorem C10_remove_empty:
  "removeAsync im pm [] w = await_void (runAsync im pm [''remove''] w)
   \<and> spawned (events (snd (removeAsync im pm [] w))) = spawned (events w) @ [(''pnpm'', [''remove''])]
   \<and> spawned (events (snd (removeAsync im pm [] w))) \<noteq> spawned (events (snd (installAsync im pm w)))"
  by (simp add: removeAsync_def installAsync_def snd_await_void spawned_runAsync)

section \<open>The claims about the spawned process\<close>

lemma perform_runAsync:
  "uses_runAsync op \<Longrightarrow> \<exists>args. perform im pm op w = snd (runAsync im pm args w)"
  by (cases op)
     (auto simp: installAsync_def addAsync_def addWithParametersAsync_def addDevAsync_def
        addGlobalAsync_def removeAsync_def snd_await_void)

lemma perform_captured:
  "\<not> uses_runAsync op \<Longrightarrow>
   \<exists>args. events (perform im pm op w) =
     events w @ [Spawn ''pnpm'' args
                   \<lparr>env = None, cwd = None, ignoreStdio = None, stdio = Some (StdioAll Pipe)\<rparr>]"
  by (cases op) (auto simp: events_versionAsync events_getConfigAsync)

lemma options_new_env:
  "env (options (new_PnpmPackageManager im opts)) = Some (process_env im ++ DISABLE_ADS_ENV im)"
  by (simp add: new_PnpmPackageManager_def)

lemma options_new_ignoreStdio:
  "(ignoreStdio (options (new_PnpmPackageManager im opts)) = Some True) = (opt_silent opts = Some True)"
  by (simp add: new_PnpmPackageManager_def)

text \<open>
  C2 at a failing input: pnpm prints a line, the warning block closed by an empty line, and
  a last line. With the manager as the constructor makes it when not silent, \<open>stdio\<close> is
  \<open>['inherit', 'inherit', 'pipe']\<close>: the standard output is inherited, the child has no
  stdout stream, the guard of \<open>_runAsync\<close> fails and no transform is attached, so nothing
  passes through the filter. With a spawner that does give the child a stdout stream, the
  mapper of the splitter has put the newline back on every piece: the empty line arrives as
  a newline, which \<open>!line\<close> does not take for empty, the block never ends and the last line
  is lost. The filter applied to the lines themselves forwards the first and the last line.
\<close>

theorem C2_stdout_not_filtered:
  "child_stdout (spawner (interactive_manager pnpm_output) ''pnpm'' [''install'']
      ((options (interactive_manager pnpm_output))\<lparr>ignoreStdio := Some False\<rparr>)) = None
   \<and> piped (events (perform (example_host pnpm_output) (interactive_manager pnpm_output) Install empty_world)) = 0
   \<and> process_stdout (perform (example_host pnpm_output) (interactive_manager pnpm_output) Install empty_world) = []
   \<and> process_stdout (perform (example_host pnpm_output) (streaming_manager pnpm_output) Install empty_world)
       = [''Lockfile is up to date'' @ [CHR 0x0A]]
   \<and> emitted (snd (write_lines ansiRegex (js_split (concat pnpm_output)) (0, new_PnpmStdoutTransform)))
       = [''Lockfile is up to date'', ''Done in 1s'']"
  by code_simp

text \<open>
  C5, as stated, at a concrete input: \<open>version\<close> calls the spawner with the options
  \<open>{ stdio: 'pipe' }\<close>, without \<open>env\<close>. The child gets the parent's environment, where
  ADBLOCK is 0, and not the merged one, where the override sets it to 1.
\<close>

theorem C5_counterexample:
  "spawn_options (events (perform (example_host []) (interactive_manager []) Version empty_world))
     = [\<lparr>env = None, cwd = None, ignoreStdio = None, stdio = Some (StdioAll Pipe)\<rparr>]
   \<and> child_env (example_host [])
        \<lparr>env = None, cwd = None, ignoreStdio = None, stdio = Some (StdioAll Pipe)\<rparr> ''ADBLOCK''
       = Some ''0''
   \<and> (process_env (example_host []) ++ DISABLE_ADS_ENV (example_host [])) ''ADBLOCK'' = Some ''1''"
  by (simp add: events_versionAsync empty_world_def child_env_def example_host_def)

text \<open>
  C5, amended. Every operation calls the spawner once. For the operations that go through
  \<open>_runAsync\<close> (install, add, addWithParameters, addDev, addGlobal, remove) the options are
  those of the instance with \<open>ignoreStdio: false\<close>, and the environment of the child is the
  parent's merged with \<open>DISABLE_ADS_ENV\<close>, the latter winning on every key it has. For
  \<open>version\<close> and \<open>getConfig\<close> the options are \<open>{ stdio: 'pipe' }\<close> alone, and the child
  has the parent's environment as it is.
\<close>

theorem C5_child_environment:
  "spawn_options (events (perform im (new_PnpmPackageManager im opts) op w))
     = spawn_options (events w)
        @ [if uses_runAsync op
           then (options (new_PnpmPackageManager im opts))\<lparr>ignoreStdio := Some False\<rparr>
           else \<lparr>env = None, cwd = None, ignoreStdio = None, stdio = Some (StdioAll Pipe)\<rparr>]
   \<and> child_env im
        (if uses_runAsync op
         then (options (new_PnpmPackageManager im opts))\<lparr>ignoreStdio := Some False\<rparr>
         else \<lparr>env = None, cwd = None, ignoreStdio = None, stdio = Some (StdioAll Pipe)\<rparr>) key
       = (if uses_runAsync op
          then (case DISABLE_ADS_ENV im key of Some v \<Rightarrow> Some v | None \<Rightarrow> process_env im key)
          else process_env im key)"
proof (cases "uses_runAsync op")
  case True
  then obtain args where "perform im (new_PnpmPackageManager im opts) op w
      = snd (runAsync im (new_PnpmPackageManager im opts) args w)"
    using perform_runAsync by blast
  then show ?thesis using True
    by (simp add: events_runAsync spawn_options_append child_env_def options_new_env map_add_def
        split: option.splits)
next
  case False
  then obtain args where "events (perform im (new_PnpmPackageManager im opts) op w)
      = events w @ [Spawn ''pnpm'' args
          \<lparr>env = None, cwd = None, ignoreStdio = None, stdio = Some (StdioAll Pipe)\<rparr>]"
    using perform_captured by blast
  then show ?thesis using False
    by (simp add: spawn_options_append child_env_def)
qed

text \<open>
  C9, as stated, at a concrete input: \<open>version\<close> on a manager that is not silent spawns
  pnpm and the logger is not called.
\<close>

theorem C9_counterexample:
  "logged (events (perform (example_host []) (interactive_manager []) Version empty_world)) = []
   \<and> spawned (events (perform (example_host []) (interactive_manager []) Version empty_world))
       = [(''pnpm'', [''--version''])]"
  by (simp add: events_versionAsync empty_world_def)

text \<open>
  C9, amended. An operation that goes through \<open>_runAsync\<close> on a manager that was not made
  silent calls the logger once, with \<open>> pnpm\<close> and the arguments joined by spaces, then the
  spawner with these arguments, and then attaches the transform if the child has a stdout
  stream. Every other case is one call of the spawner and nothing else: a silent manager
  neither logs nor attaches the transform, and \<open>version\<close> and \<open>getConfig\<close> do neither,
  silent or not.
\<close>

theorem C9_logger_and_filter:
  "\<exists>args run_opts.
     events (perform im (new_PnpmPackageManager im opts) op w) = events w @
       (if uses_runAsync op \<and> opt_silent opts \<noteq> Some True
        then Log (''> pnpm '' @ join '' '' args) # Spawn ''pnpm'' args run_opts
               # (case child_stdout (spawner (new_PnpmPackageManager im opts) ''pnpm'' args run_opts) of
                    None \<Rightarrow> [] | Some chunks \<Rightarrow> [PipeStdout])
        else [Spawn ''pnpm'' args run_opts])"
proof (cases "uses_runAsync op")
  case True
  then obtain args where "perform im (new_PnpmPackageManager im opts) op w
      = snd (runAsync im (new_PnpmPackageManager im opts) args w)"
    using perform_runAsync by blast
  then show ?thesis using True
    by (auto simp: events_runAsync options_new_ignoreStdio)
next
  case False
  then obtain args where "events (perform im (new_PnpmPackageManager im opts) op w)
      = events w @ [Spawn ''pnpm'' args
          \<lparr>env = None, cwd = None, ignoreStdio = None, stdio = Some (StdioAll Pipe)\<rparr>]"
    using perform_captured by blast
  then show ?thesis using False by auto
qed

section \<open>The claims about the file system\<close>

text \<open>
  C7, as stated, at a concrete input: \<open>cwd\<close> is set, to the empty string, and there is no
  lockfile; \<open>removeLockfile\<close> fails on the assertion.
\<close>

theorem C7_counterexample:
  "cwd (options (manager_at (Some []))) = Some []
   \<and> \<not> existsSync list_fs (path_join list_fs [] ''pnpm-lock.yaml'') (files example_disk)
   \<and> removeLockfileAsync list_fs (manager_at (Some [])) example_disk
       = (Inl (AssertionError ''cwd required for PnpmPackageManager.removeLockfileAsync''), example_disk)"
  by (simp add: manager_at_def new_PnpmPackageManager_def removeLockfileAsync_def list_fs_def
      example_disk_def)

text \<open>
  C7, amended. When \<open>cwd\<close> is absent or the empty string, \<open>removeLockfile\<close> and \<open>clean\<close>
  fail with the assertion's error and make no call to the file system. When \<open>cwd\<close> is a
  non-empty string and the lockfile (for \<open>clean\<close>: the directory node_modules) under it
  does not exist, the operation returns without error, its one call to the file system is
  the check that the path exists, and the files are as before.
\<close>

theorem C7_cwd_precondition:
  "(cwd (options pm) = None \<or> cwd (options pm) = Some [] \<longrightarrow>
      removeLockfileAsync api pm d
        = (Inl (AssertionError ''cwd required for PnpmPackageManager.removeLockfileAsync''), d)
      \<and> cleanAsync api pm d
        = (Inl (AssertionError ''cwd required for PnpmPackageManager.cleanAsync''), d))
   \<and> (cwd (options pm) = Some dir \<and> dir \<noteq> []
        \<and> \<not> existsSync api (path_join api dir ''pnpm-lock.yaml'') (files d) \<longrightarrow>
      removeLockfileAsync api pm d
        = (Inr (), d\<lparr>fs_calls := fs_calls d @ [ExistsSync (path_join api dir ''pnpm-lock.yaml'')]\<rparr>))
   \<and> (cwd (options pm) = Some dir \<and> dir \<noteq> []
        \<and> \<not> existsSync api (path_join api dir ''node_modules'') (files d) \<longrightarrow>
      cleanAsync api pm d
        = (Inr (), d\<lparr>fs_calls := fs_calls d @ [ExistsSync (path_join api dir ''node_modules'')]\<rparr>))"
  by (auto simp: removeLockfileAsync_def cleanAsync_def Let_def)

theorem C7_cwd_precondition_witness:
  "removeLockfileAsync list_fs (manager_at None) example_disk
     = (Inl (AssertionError ''cwd required for PnpmPackageManager.removeLockfileAsync''), example_disk)
   \<and> cleanAsync list_fs (manager_at None) example_disk
     = (Inl (AssertionError ''cwd required for PnpmPackageManager.cleanAsync''), example_disk)
   \<and> removeLockfileAsync list_fs (manager_at (Some ''/app'')) example_disk
     = (Inr (), \<lparr>files = [''/app/package.json''], fs_calls = [ExistsSync ''/app/pnpm-lock.yaml'']\<rparr>)
   \<and> cleanAsync list_fs (manager_at (Some ''/app'')) example_disk
     = (Inr (), \<lparr>files = [''/app/package.json''], fs_calls = [ExistsSync ''/app/node_modules'']\<rparr>)"
proof -
  have unset: "cwd (options (manager_at None)) = None \<or> cwd (options (manager_at None)) = Some []"
    by (simp add: manager_at_def new_PnpmPackageManager_def)
  have lock: "cwd (options (manager_at (Some ''/app''))) = Some ''/app'' \<and> ''/app'' \<noteq> []
      \<and> \<not> existsSync list_fs (path_join list_fs ''/app'' ''pnpm-lock.yaml'') (files example_disk)"
    by (simp add: manager_at_def new_PnpmPackageManager_def list_fs_def example_disk_def)
  have modules: "cwd (options (manager_at (Some ''/app''))) = Some ''/app'' \<and> ''/app'' \<noteq> []
      \<and> \<not> existsSync list_fs (path_join list_fs ''/app'' ''node_modules'') (files example_disk)"
    by (simp add: manager_at_def new_PnpmPackageManager_def list_fs_def example_disk_def)
  have paths: "path_join list_fs ''/app'' ''pnpm-lock.yaml'' = ''/app/pnpm-lock.yaml''"
    "path_join list_fs ''/app'' ''node_modules'' = ''/app/node_modules''"
    by (simp_all add: list_fs_def)
  from C7_cwd_precondition [of "manager_at None" list_fs example_disk "''/app''"] unset
  have a: "removeLockfileAsync list_fs (manager_at None) example_disk
     = (Inl (AssertionError ''cwd required for PnpmPackageManager.removeLockfileAsync''), example_disk)
   \<and> cleanAsync list_fs (manager_at None) example_disk
     = (Inl (AssertionError ''cwd required for PnpmPackageManager.cleanAsync''), example_disk)"
    by blast
  from C7_cwd_precondition [of "manager_at (Some ''/app'')" list_fs example_disk "''/app''"] lock modules
  have b: "removeLockfileAsync list_fs (manager_at (Some ''/app'')) example_disk
       = (Inr (), example_disk\<lparr>fs_calls := fs_calls example_disk @ [ExistsSync (path_join list_fs ''/app'' ''pnpm-lock.yaml'')]\<rparr>)
     \<and> cleanAsync list_fs (manager_at (Some ''/app'')) example_disk
       = (Inr (), example_disk\<lparr>fs_calls := fs_calls example_disk @ [ExistsSync (path_join list_fs ''/app'' ''node_modules'')]\<rparr>)"
    by blast
  from a b show ?thesis by (simp add: paths example_disk_def)
qed

end
